theory Spec2Isabelle
  imports Main
begin

section \<open>Values the library handles\<close>

text \<open>
  A Go \<open>string\<close> is a sequence of bytes, and \<open>len\<close> counts them; an Isabelle
  \<open>string\<close> is a list of 8-bit characters, so \<open>length\<close> is Go's \<open>len\<close>. Go's
  \<open>int\<close> is modelled as \<open>int\<close>: the library only compares integers and never
  computes with them, so no operation can overflow.
\<close>

text \<open>
  \<open>time.Time\<close> as an instant: seconds since January 1 of year 1, 00:00:00 UTC, and the
  nanoseconds within that second. \<open>IsZero\<close>, \<open>Before\<close> and \<open>After\<close> follow the
  wall-clock branch of the standard library's methods (monotonic clock readings are not
  modelled).
\<close>

datatype Time = Time (sec: int) (nsec: int)

definition IsZero :: "Time \<Rightarrow> bool" where
  "IsZero t = (sec t = 0 \<and> nsec t = 0)"

definition Before :: "Time \<Rightarrow> Time \<Rightarrow> bool" where
  "Before t u = (sec t < sec u \<or> sec t = sec u \<and> nsec t < nsec u)"

definition After :: "Time \<Rightarrow> Time \<Rightarrow> bool" where
  "After t u = (sec t > sec u \<or> sec t = sec u \<and> nsec t > nsec u)"

text \<open>
  A value of type \<open>interface{}\<close>, tagged with its dynamic type. Besides the five kinds
  that \<open>isZero\<close> names there are the dynamic types the type switch sends to its default:
  a second integer type (\<open>int64\<close>), a slice of strings (the "unsupported type" of the
  repository's test), a nil pointer of some pointer type, and a function value.
\<close>

datatype go_value =
    GoNil
  | GoString string
  | GoInt int
  | GoBool bool
  | GoTime Time
  | GoInt64 int
  | GoStringSlice "string list"
  | GoNilPointer
  | GoFunc

section \<open>Validation errors\<close>

record ValidationError =
  Field_ve :: string
  MessageKey :: string
  MessageParams :: "string \<rightharpoonup> go_value"
  CurrentValue :: go_value

text \<open>\<open>(*ValidationError).Error\<close> returns the message key.\<close>

definition ValidationError_Error :: "ValidationError \<Rightarrow> string" where
  "ValidationError_Error ve = MessageKey ve"

text \<open>Message keys and the names of the message parameters.\<close>

definition MsgRequired :: string where "MsgRequired = ''validation.required''"
definition MsgInvalidEmail :: string where "MsgInvalidEmail = ''validation.email''"
definition MsgMinLength :: string where "MsgMinLength = ''validation.min_length''"
definition MsgMaxLength :: string where "MsgMaxLength = ''validation.max_length''"
definition MsgBetween :: string where "MsgBetween = ''validation.between''"
definition MsgDateGreaterThan :: string where
  "MsgDateGreaterThan = ''validation.date_greater_than''"
definition MsgDateLessThan :: string where
  "MsgDateLessThan = ''validation.date_less_than''"

definition Field_k :: string where "Field_k = ''Field''"
definition Min_k :: string where "Min_k = ''Min''"
definition Max_k :: string where "Max_k = ''Max''"
definition Value_k :: string where "Value_k = ''Value''"

section \<open>Rule functions\<close>

text \<open>
  \<open>isZero\<close>: the type switch of the source, case by case; every dynamic type it does
  not name reaches the final \<open>return false\<close>.
\<close>

fun isZero :: "go_value \<Rightarrow> bool" where
  "isZero (GoString v) = (v = [])"
| "isZero (GoInt v) = (v = 0)"
| "isZero (GoBool v) = (\<not> v)"
| "isZero (GoTime v) = IsZero v"
| "isZero GoNil = True"
| "isZero _ = False"

text \<open>A rule returns a pointer to a fresh error or nil: \<open>Some\<close> or \<open>None\<close>.\<close>

definition Required :: "string \<Rightarrow> go_value \<Rightarrow> ValidationError option" where
  "Required field val =
     (if isZero val then
        Some \<lparr> Field_ve = field, MessageKey = MsgRequired,
               MessageParams = [Field_k \<mapsto> GoString field, Value_k \<mapsto> val],
               CurrentValue = val \<rparr>
      else None)"

text \<open>\<open>strings.Contains\<close>: the second string occurs in the first as a block of bytes.\<close>

fun HasPrefix :: "string \<Rightarrow> string \<Rightarrow> bool" where
  "HasPrefix s [] = True"
| "HasPrefix [] (p # ps) = False"
| "HasPrefix (c # cs) (p # ps) = (c = p \<and> HasPrefix cs ps)"

fun Contains :: "string \<Rightarrow> string \<Rightarrow> bool" where
  "Contains [] substr = (substr = [])"
| "Contains (c # cs) substr = (HasPrefix (c # cs) substr \<or> Contains cs substr)"

definition Email :: "string \<Rightarrow> string \<Rightarrow> ValidationError option" where
  "Email field val =
     (if \<not> Contains val ''@'' \<or> \<not> Contains val ''.'' then
        Some \<lparr> Field_ve = field, MessageKey = MsgInvalidEmail,
               MessageParams = [Field_k \<mapsto> GoString field, Value_k \<mapsto> GoString val],
               CurrentValue = GoString val \<rparr>
      else None)"

definition MinLength :: "string \<Rightarrow> string \<Rightarrow> int \<Rightarrow> ValidationError option" where
  "MinLength field val mn =
     (if int (length val) < mn then
        Some \<lparr> Field_ve = field, MessageKey = MsgMinLength,
               MessageParams = [Field_k \<mapsto> GoString field, Min_k \<mapsto> GoInt mn,
                                Value_k \<mapsto> GoString val],
               CurrentValue = GoString val \<rparr>
      else None)"

definition MaxLength :: "string \<Rightarrow> string \<Rightarrow> int \<Rightarrow> ValidationError option" where
  "MaxLength field val mx =
     (if int (length val) > mx then
        Some \<lparr> Field_ve = field, MessageKey = MsgMaxLength,
               MessageParams = [Field_k \<mapsto> GoString field, Max_k \<mapsto> GoInt mx,
                                Value_k \<mapsto> GoString val],
               CurrentValue = GoString val \<rparr>
      else None)"

definition Between :: "string \<Rightarrow> int \<Rightarrow> int \<Rightarrow> int \<Rightarrow> ValidationError option" where
  "Between field val mn mx =
     (if val < mn \<or> val > mx then
        Some \<lparr> Field_ve = field, MessageKey = MsgBetween,
               MessageParams = [Field_k \<mapsto> GoString field, Min_k \<mapsto> GoInt mn,
                                Max_k \<mapsto> GoInt mx, Value_k \<mapsto> GoInt val],
               CurrentValue = GoInt val \<rparr>
      else None)"

definition DateGreaterThan :: "string \<Rightarrow> Time \<Rightarrow> Time \<Rightarrow> ValidationError option" where
  "DateGreaterThan field val mn =
     (if Before val mn then
        Some \<lparr> Field_ve = field, MessageKey = MsgDateGreaterThan,
               MessageParams = [Field_k \<mapsto> GoString field, Min_k \<mapsto> GoTime mn,
                                Value_k \<mapsto> GoTime val],
               CurrentValue = GoTime val \<rparr>
      else None)"

definition DateLessThan :: "string \<Rightarrow> Time \<Rightarrow> Time \<Rightarrow> ValidationError option" where
  "DateLessThan field val mx =
     (if After val mx then
        Some \<lparr> Field_ve = field, MessageKey = MsgDateLessThan,
               MessageParams = [Field_k \<mapsto> GoString field, Max_k \<mapsto> GoTime mx,
                                Value_k \<mapsto> GoTime val],
               CurrentValue = GoTime val \<rparr>
      else None)"

text \<open>
  The length of a string in characters, as the specification counts it: the number of
  UTF-8 encoded code points, that is, of the bytes that are not continuation bytes
  (\<open>0x80\<close> to \<open>0xBF\<close>). It follows the specification's words, not the source, which has
  no such function.
\<close>

definition is_continuation :: "char \<Rightarrow> bool" where
  "is_continuation c = (128 \<le> (of_char c :: nat) \<and> (of_char c :: nat) < 192)"

definition char_count :: "string \<Rightarrow> nat" where
  "char_count s = length (filter (\<lambda>c. \<not> is_continuation c) s)"

section \<open>Validator\<close>

type_synonym ValidationErrors = "ValidationError list"

text \<open>\<open>P\<close> is a slice of pointers; a nil pointer is \<open>None\<close>.\<close>

type_synonym P = "ValidationError option list"

fun Join :: "string list \<Rightarrow> string \<Rightarrow> string" where
  "Join [] sep = []"
| "Join [x] sep = x"
| "Join (x # y # ys) sep = x @ sep @ Join (y # ys) sep"

definition ValidationErrors_Error :: "ValidationErrors \<Rightarrow> string" where
  "ValidationErrors_Error ve = Join (map ValidationError_Error ve) ''; ''"

record Validator =
  errors :: ValidationErrors

text \<open>\<open>New\<close> returns \<open>&Validator{}\<close>: the accumulator is the nil slice.\<close>

definition New :: Validator where
  "New = \<lparr> errors = [] \<rparr>"

text \<open>
  The \<open>for ... range params\<close> loop of \<open>Validate\<close>: every entry that is not nil and
  whose message key is not empty is appended to \<open>v.errors\<close>.
\<close>

fun Validate_loop :: "Validator \<Rightarrow> P \<Rightarrow> Validator" where
  "Validate_loop v [] = v"
| "Validate_loop v (err # rest) =
     (case err of
        None \<Rightarrow> Validate_loop v rest
      | Some e \<Rightarrow>
          if MessageKey e \<noteq> [] then Validate_loop (v\<lparr> errors := errors v @ [e] \<rparr>) rest
          else Validate_loop v rest)"

text \<open>
  \<open>Validate\<close> mutates its receiver: the model returns the result together with the
  Validator after the call. The \<open>Validateable\<close> interface is its one method, passed as
  the function \<open>Validations\<close>. The result \<open>None\<close> is the nil error.
\<close>

definition Validate ::
  "('a \<Rightarrow> P) \<Rightarrow> Validator \<Rightarrow> 'a \<Rightarrow> ValidationErrors option \<times> Validator" where
  "Validate Validations v val =
     (let params = Validations val in
      if length params = 0 then (None, v)
      else
        let v' = Validate_loop v params in
        if length (errors v') > 0 then (Some (errors v'), v') else (None, v'))"

text \<open>A run of calls on one Validator, in order; the results of the calls are collected.\<close>

fun Validate_seq ::
  "('a \<Rightarrow> P) \<Rightarrow> Validator \<Rightarrow> 'a list \<Rightarrow> ValidationErrors option list \<times> Validator" where
  "Validate_seq Validations v [] = ([], v)"
| "Validate_seq Validations v (val # vals) =
     (case Validate Validations v val of
        (r, v') \<Rightarrow> (case Validate_seq Validations v' vals of (rs, v'') \<Rightarrow> (r # rs, v'')))"

text \<open>
  What the specification calls a violation among the entries of a rule sequence: an entry
  that is present and carries a non-empty message key.
\<close>

fun is_violation :: "ValidationError option \<Rightarrow> bool" where
  "is_violation None = False"
| "is_violation (Some e) = (MessageKey e \<noteq> [])"

text \<open>The violations of a rule sequence, in their order.\<close>

fun violations :: "P \<Rightarrow> ValidationErrors" where
  "violations [] = []"
| "violations (None # rest) = violations rest"
| "violations (Some e # rest) =
     (if MessageKey e \<noteq> [] then e # violations rest else violations rest)"

section \<open>Translator\<close>

text \<open>
  The error values \<open>Execute\<close> can hand to \<open>Translate\<close>, by dynamic type, as far as the
  type assertion of \<open>Translate\<close> tells them apart: an execution error of the template
  package, carrying the template's name and the text of the error, or a pointer to a
  \<open>ValidationError\<close>.
\<close>

datatype go_error = ExecError string string | ValidationErrorPtr ValidationError

fun go_error_Error :: "go_error \<Rightarrow> string" where
  "go_error_Error (ExecError name text) = text"
| "go_error_Error (ValidationErrorPtr ve) = ValidationError_Error ve"

text \<open>
  The registry as the association list of the Go map, in the order in which \<open>range\<close>
  visits it (Go fixes no order: every order is an association list with the same
  entries); the keys of a Go map are distinct. \<open>tmpl\<close> is the set of named templates,
  \<open>Lookup\<close> is application, nil is \<open>None\<close>. The template type \<open>'t\<close> and the functions
  that parse and execute a template belong to the template package, not to the
  repository, and are parameters.
\<close>

record 't Translator =
  messages :: "(string \<times> string) list"
  tmpl :: "string \<rightharpoonup> 't"

definition defaultMessages :: "(string \<times> string) list" where
  "defaultMessages =
    [(MsgRequired, ''{{.Field}} alan'' @ [CHR 0xC4, CHR 0xB1] @ '' zorunludur''),
     (MsgInvalidEmail, ''{{.Field}} ge'' @ [CHR 0xC3, CHR 0xA7] @ ''erli bir email adresi olmal''
        @ [CHR 0xC4, CHR 0xB1] @ ''d'' @ [CHR 0xC4, CHR 0xB1] @ ''r''),
     (MsgMinLength, ''{{.Field}} en az {{.Min}} karakter olmal''
        @ [CHR 0xC4, CHR 0xB1] @ ''d'' @ [CHR 0xC4, CHR 0xB1] @ ''r''),
     (MsgMaxLength, ''{{.Field}} en fazla {{.Max}} karakter olmal''
        @ [CHR 0xC4, CHR 0xB1] @ ''d'' @ [CHR 0xC4, CHR 0xB1] @ ''r''),
     (MsgBetween, ''{{.Field}} {{.Min}} ile {{.Max}} aras'' @ [CHR 0xC4, CHR 0xB1] @ ''nda olmal''
        @ [CHR 0xC4, CHR 0xB1] @ ''d'' @ [CHR 0xC4, CHR 0xB1] @ ''r''),
     (MsgDateGreaterThan, ''{{.Field}} {{.Min}} tarihinden sonra olmal''
        @ [CHR 0xC4, CHR 0xB1] @ ''d'' @ [CHR 0xC4, CHR 0xB1] @ ''r''),
     (MsgDateLessThan, ''{{.Field}} {{.Max}} tarihinden '' @ [CHR 0xC3, CHR 0xB6] @ ''nce olmal''
        @ [CHR 0xC4, CHR 0xB1] @ ''d'' @ [CHR 0xC4, CHR 0xB1] @ ''r'')]"

text \<open>
  The loop of \<open>NewTranslatorWithMessages\<close>: \<open>template.Must(tmpl.New(key).Parse(msg))\<close>
  for each entry. \<open>Must\<close> panics with the error of the first template that does not
  parse; the panic is the result \<open>Inl\<close>.
\<close>

fun parse_messages ::
  "(string \<Rightarrow> string \<Rightarrow> string + 't) \<Rightarrow> (string \<rightharpoonup> 't) \<Rightarrow> (string \<times> string) list
     \<Rightarrow> string + (string \<rightharpoonup> 't)" where
  "parse_messages parse tm [] = Inr tm"
| "parse_messages parse tm ((key, msg) # rest) =
     (case parse key msg of
        Inl e \<Rightarrow> Inl e
      | Inr t \<Rightarrow> parse_messages parse (tm(key \<mapsto> t)) rest)"

definition NewTranslatorWithMessages ::
  "(string \<Rightarrow> string \<Rightarrow> string + 't) \<Rightarrow> (string \<times> string) list \<Rightarrow> string + 't Translator" where
  "NewTranslatorWithMessages parse msgs =
     (case parse_messages parse Map.empty msgs of
        Inl e \<Rightarrow> Inl e
      | Inr tm \<Rightarrow> Inr \<lparr> messages = msgs, tmpl = tm \<rparr>)"

definition NewTranslator :: "(string \<Rightarrow> string \<Rightarrow> string + 't) \<Rightarrow> string + 't Translator" where
  "NewTranslator parse = NewTranslatorWithMessages parse defaultMessages"

text \<open>
  \<open>Translate\<close>, on a non-nil pointer to a \<open>ValidationError\<close>. Inside the \<open>if\<close> that
  runs \<open>Execute\<close> the name \<open>err\<close> is the error that \<open>Execute\<close> returned, not the
  \<open>ValidationError\<close> argument: the type assertion and both returns of that branch read
  the execution error.
\<close>

definition Translate ::
  "('t \<Rightarrow> (string \<rightharpoonup> go_value) \<Rightarrow> go_error + string) \<Rightarrow> 't Translator \<Rightarrow> ValidationError
     \<Rightarrow> string" where
  "Translate execute t err =
     (case map_of (messages t) (MessageKey err) of
        None \<Rightarrow> MessageKey err
      | Some _ \<Rightarrow>
          (case tmpl t (MessageKey err) of
             None \<Rightarrow> MessageKey err
           | Some tp \<Rightarrow>
               (case execute tp (MessageParams err) of
                  Inl exec_err \<Rightarrow>
                    (case exec_err of
                       ValidationErrorPtr valErr \<Rightarrow> MessageKey valErr
                     | _ \<Rightarrow> go_error_Error exec_err)
                | Inr buf \<Rightarrow> buf)))"

section \<open>The template package, as far as the message templates use it\<close>

text \<open>
  The repository's templates are plain text with actions of the form \<open>{{.Name}}\<close>,
  the name an identifier of ASCII letters, digits and underscores. The
  Go package \<open>text/template\<close> is modelled on this fragment, after its documentation: a
  template is a list of text nodes and field nodes; executing it against a map writes
  the text, and for a field the printed value of the map's entry, or \<open><no value>\<close>
  when the map has no such key; a value that cannot be printed (a function) stops the
  execution with an error. Any other action is outside the fragment and is rejected by
  this parser, also where Go accepts it; the theorems on \<open>NewTranslatorWithMessages\<close>
  and \<open>Translate\<close> that do not mention \<open>Parse\<close> or \<open>Execute\<close> hold for every parser
  and every executor.
\<close>

datatype node = TextNode string | FieldNode string

datatype Template = Template (Name: string) (Root: "node list")

datatype item = ItemText string | ItemAction string

text \<open>
  The lexer: text up to the next \<open>{{\<close>, then the action up to the next \<open>}}\<close>. The flag
  says whether the scan is inside an action; the end of the input inside an action is
  an error (\<open>None\<close>).
\<close>

definition text_item :: "string \<Rightarrow> item list" where
  "text_item acc = (if acc = [] then [] else [ItemText acc])"

fun lex :: "bool \<Rightarrow> string \<Rightarrow> string \<Rightarrow> item list option" where
  "lex False acc [] = Some (text_item acc)"
| "lex True acc [] = None"
| "lex False acc (c # cs) =
     (if c = CHR ''{'' \<and> HasPrefix cs ''{''
      then map_option (\<lambda>r. text_item acc @ r) (lex True [] (tl cs))
      else lex False (acc @ [c]) cs)"
| "lex True acc (c # cs) =
     (if c = CHR ''}'' \<and> HasPrefix cs ''}''
      then map_option (\<lambda>r. ItemAction acc # r) (lex False [] (tl cs))
      else lex True (acc @ [c]) cs)"

definition isSpace :: "char \<Rightarrow> bool" where
  "isSpace c = (c = CHR '' '' \<or> c = CHR 0x09 \<or> c = CHR 0x0D \<or> c = CHR 0x0A)"

definition isLetter :: "char \<Rightarrow> bool" where
  "isLetter c = (c \<in> set ''_abcdefghijklmnopqrstuvwxyzABCDEFGHIJKLMNOPQRSTUVWXYZ'')"

definition isAlphaNumeric :: "char \<Rightarrow> bool" where
  "isAlphaNumeric c = (isLetter c \<or> c \<in> set ''0123456789'')"

definition trim :: "string \<Rightarrow> string" where
  "trim s = rev (dropWhile isSpace (rev (dropWhile isSpace s)))"

text \<open>An action of the fragment: a dot and an identifier, spaces around them allowed.\<close>

definition parse_action :: "string \<Rightarrow> string option" where
  "parse_action s =
     (case trim s of
        c # n # rest \<Rightarrow>
          if c = CHR ''.'' \<and> isLetter n \<and> list_all isAlphaNumeric rest then Some (n # rest)
          else None
      | _ \<Rightarrow> None)"

fun parse_items :: "item list \<Rightarrow> node list option" where
  "parse_items [] = Some []"
| "parse_items (ItemText s # is) = map_option (\<lambda>ns. TextNode s # ns) (parse_items is)"
| "parse_items (ItemAction a # is) =
     (case parse_action a of
        None \<Rightarrow> None
      | Some f \<Rightarrow> map_option (\<lambda>ns. FieldNode f # ns) (parse_items is))"

text \<open>
  \<open>tmpl.New(name).Parse(text)\<close>: the parsed template or the error. The error texts
  abbreviate Go's, which also give the line and the offending token.
\<close>

definition Parse :: "string \<Rightarrow> string \<Rightarrow> string + Template" where
  "Parse name text =
     (case lex False [] text of
        None \<Rightarrow> Inl (''template: '' @ name @ '': unclosed action'')
      | Some items \<Rightarrow>
          (case parse_items items of
             None \<Rightarrow> Inl (''template: '' @ name @ '': unexpected action'')
           | Some ns \<Rightarrow> Inr (Template name ns)))"

text \<open>Decimal digits of an integer, as \<open>fmt\<close> prints it.\<close>

fun digits :: "nat \<Rightarrow> string" where
  "digits n =
     (if n < 10 then [''0123456789'' ! n]
      else digits (n div 10) @ [''0123456789'' ! (n mod 10)])"

definition itoa :: "int \<Rightarrow> string" where
  "itoa i = (if i < 0 then CHR ''-'' # digits (nat (- i)) else digits (nat i))"

text \<open>
  How the template package prints a value: \<open>None\<close> for a value it cannot print. The
  text of a \<open>time.Time\<close> depends on its location and the time zone data, which the
  model of \<open>Time\<close> does not have: \<open>Time_String\<close> is a parameter.
\<close>

fun printValue :: "(Time \<Rightarrow> string) \<Rightarrow> go_value \<Rightarrow> string option" where
  "printValue Time_String GoNil = Some ''<no value>''"
| "printValue Time_String (GoString s) = Some s"
| "printValue Time_String (GoInt i) = Some (itoa i)"
| "printValue Time_String (GoBool b) = Some (if b then ''true'' else ''false'')"
| "printValue Time_String (GoTime t) = Some (Time_String t)"
| "printValue Time_String (GoInt64 i) = Some (itoa i)"
| "printValue Time_String (GoStringSlice xs) = Some (''['' @ Join xs '' '' @ '']'')"
| "printValue Time_String GoNilPointer = Some ''<nil>''"
| "printValue Time_String GoFunc = None"

text \<open>
  Walking the nodes, writing to the buffer. The error text abbreviates Go's, which also
  gives the position of the node.
\<close>

fun walk ::
  "(Time \<Rightarrow> string) \<Rightarrow> string \<Rightarrow> (string \<rightharpoonup> go_value) \<Rightarrow> string \<Rightarrow> node list
     \<Rightarrow> go_error + string" where
  "walk Time_String name dot buf [] = Inr buf"
| "walk Time_String name dot buf (TextNode s # ns) = walk Time_String name dot (buf @ s) ns"
| "walk Time_String name dot buf (FieldNode f # ns) =
     (case dot f of
        None \<Rightarrow> walk Time_String name dot (buf @ ''<no value>'') ns
      | Some v \<Rightarrow>
          (case printValue Time_String v of
             None \<Rightarrow>
               Inl (ExecError name
                     (''template: '' @ name @ '': executing at <.'' @ f
                        @ ''>: cannot print value''))
           | Some s \<Rightarrow> walk Time_String name dot (buf @ s) ns))"

definition Execute ::
  "(Time \<Rightarrow> string) \<Rightarrow> Template \<Rightarrow> (string \<rightharpoonup> go_value) \<Rightarrow> go_error + string" where
  "Execute Time_String tp data = walk Time_String (Name tp) data [] (Root tp)"

text \<open>
  The specification's account of a successful translation: the template with every
  placeholder replaced by the string representation of its parameter. It follows the
  specification's words and is compared with \<open>Translate\<close> below.
\<close>

fun substitute :: "(Time \<Rightarrow> string) \<Rightarrow> (string \<rightharpoonup> go_value) \<Rightarrow> node list \<Rightarrow> string" where
  "substitute Time_String params [] = []"
| "substitute Time_String params (TextNode s # ns) = s @ substitute Time_String params ns"
| "substitute Time_String params (FieldNode f # ns) =
     (case params f of
        None \<Rightarrow> []
      | Some v \<Rightarrow> (case printValue Time_String v of None \<Rightarrow> [] | Some s \<Rightarrow> s))
     @ substitute Time_String params ns"

fun placeholders :: "node list \<Rightarrow> string list" where
  "placeholders [] = []"
| "placeholders (TextNode s # ns) = placeholders ns"
| "placeholders (FieldNode f # ns) = f # placeholders ns"

section \<open>The repository's tests on the model\<close>

lemmas msg_defs = MsgRequired_def MsgInvalidEmail_def MsgMinLength_def MsgMaxLength_def
  MsgBetween_def MsgDateGreaterThan_def MsgDateLessThan_def

lemmas key_defs = Field_k_def Min_k_def Max_k_def Value_k_def

text \<open>\<open>TestIsZero\<close>, \<open>TestValidationErrors\<close>, \<open>TestValidator\<close> and \<open>TestTranslator\<close>.\<close>

lemma test_IsZero:
  "isZero (GoString []) \<and> \<not> isZero (GoString ''test'') \<and> isZero (GoInt 0) \<and> \<not> isZero (GoInt 42)
   \<and> isZero (GoBool False) \<and> \<not> isZero (GoBool True) \<and> isZero (GoTime (Time 0 0))
   \<and> \<not> isZero (GoTime (Time 63900000000 5)) \<and> isZero GoNil \<and> \<not> isZero (GoStringSlice [])"
  by (simp add: IsZero_def)

lemma test_ValidationErrors_Error:
  "ValidationErrors_Error
     [\<lparr> Field_ve = ''name'', MessageKey = MsgRequired, MessageParams = Map.empty,
        CurrentValue = GoNil \<rparr>,
      \<lparr> Field_ve = ''email'', MessageKey = MsgInvalidEmail, MessageParams = Map.empty,
        CurrentValue = GoNil \<rparr>]
   = ''validation.required; validation.email''"
  by (simp add: ValidationErrors_Error_def ValidationError_Error_def msg_defs)

lemma test_Validator:
  "fst (Validate id New []) = None
   \<and> map_option length
        (fst (Validate id New [Required ''name'' (GoString []), Email ''email'' ''invalid'']))
      = Some 2"
  by (simp add: Validate_def New_def Required_def Email_def msg_defs)

lemma test_Translator:
  "\<not> isl (NewTranslator Parse)
   \<and> Translate (Execute (\<lambda>t. [])) (projr (NewTranslator Parse))
        \<lparr> Field_ve = ''name'', MessageKey = MsgMinLength,
          MessageParams = [Field_k \<mapsto> GoString ''Name'', Min_k \<mapsto> GoInt 3,
                           Value_k \<mapsto> GoString ''J''],
          CurrentValue = GoNil \<rparr>
       = ''Name en az 3 karakter olmal'' @ [CHR 0xC4, CHR 0xB1] @ ''d'' @ [CHR 0xC4, CHR 0xB1] @ ''r''
   \<and> Translate (Execute (\<lambda>t. [])) (projr (NewTranslator Parse))
        \<lparr> Field_ve = ''email'', MessageKey = MsgRequired,
          MessageParams = [Field_k \<mapsto> GoString ''Email'', Value_k \<mapsto> GoString []],
          CurrentValue = GoNil \<rparr>
       = ''Email alan'' @ [CHR 0xC4, CHR 0xB1] @ '' zorunludur''
   \<and> Translate (Execute (\<lambda>t. [])) (projr (NewTranslator Parse))
        \<lparr> Field_ve = ''test'', MessageKey = ''unknown.key'', MessageParams = Map.empty,
          CurrentValue = GoNil \<rparr>
       = ''unknown.key''"
  by code_simp

text \<open>
  A placeholder whose parameter is missing from the message parameters is not a
  rendering failure: the template package writes \<open><no value>\<close> in its place.
\<close>

lemma missing_parameter_prints_no_value:
  "Translate (Execute (\<lambda>t. [])) (projr (NewTranslator Parse))
        \<lparr> Field_ve = ''name'', MessageKey = MsgMinLength,
          MessageParams = [Field_k \<mapsto> GoString ''Name''], CurrentValue = GoNil \<rparr>
       = ''Name en az <no value> karakter olmal'' @ [CHR 0xC4, CHR 0xB1] @ ''d''
           @ [CHR 0xC4, CHR 0xB1] @ ''r''"
  by code_simp

section \<open>Properties of the rule functions\<close>

subsection \<open>Length rules\<close>

text \<open>What the source compares is the number of bytes.\<close>

lemma MinLength_bytes: "MinLength f v mn = None \<longleftrightarrow> int (length v) \<ge> mn"
  by (simp add: MinLength_def)

lemma MaxLength_bytes: "MaxLength f v mx = None \<longleftrightarrow> int (length v) \<le> mx"
  by (simp add: MaxLength_def)

text \<open>On ASCII strings the number of bytes is the number of characters.\<close>

lemma char_count_ascii:
  "\<forall>c \<in> set v. (of_char c :: nat) < 128 \<Longrightarrow> char_count v = length v"
  by (induction v) (auto simp: char_count_def is_continuation_def)

text \<open>
  C3. \<open>MinLength\<close> and \<open>MaxLength\<close> are specified on the length of the value in
  characters. The source compares \<open>len(value)\<close>, the number of bytes: the one-character
  string of the Turkish letter s-cedilla (two bytes in UTF-8) passes \<open>MinLength\<close> with
  minimum 2, and the four-character name of six bytes (I, s-cedilla, dotless i, l) is
  rejected by \<open>MaxLength\<close> with maximum 5.
\<close>

theorem C3_length_counts_bytes:
  "char_count [CHR 0xC5, CHR 0x9F] = 1
   \<and> MinLength ''name'' [CHR 0xC5, CHR 0x9F] 2 = None
   \<and> char_count [CHR ''I'', CHR 0xC5, CHR 0x9F, CHR 0xC4, CHR 0xB1, CHR ''l''] = 4
   \<and> MaxLength ''name'' [CHR ''I'', CHR 0xC5, CHR 0x9F, CHR 0xC4, CHR 0xB1, CHR ''l''] 5 \<noteq> None"
  by (simp add: char_count_def is_continuation_def MinLength_def MaxLength_def)

subsection \<open>Required\<close>

text \<open>The values that \<open>Required\<close> reports, exactly.\<close>

lemma Required_iff:
  "Required f v \<noteq> None \<longleftrightarrow>
     v = GoString [] \<or> v = GoInt 0 \<or> v = GoBool False \<or> v = GoNil \<or> (\<exists>t. v = GoTime t \<and> IsZero t)"
  by (cases v) (auto simp: Required_def)

text \<open>
  C4. \<open>Required\<close> is specified to report the zero value of the value's type, numeric
  zero and nil among them. The type switch of \<open>isZero\<close> names \<open>int\<close> alone among the
  numeric types, and its \<open>nil\<close> case is the nil interface: the zero of type \<open>int64\<close>
  and a nil pointer are not reported.
\<close>

theorem C4_Required_int64_zero:
  "\<not> isZero (GoInt64 0) \<and> Required ''count'' (GoInt64 0) = None
   \<and> \<not> isZero GoNilPointer \<and> Required ''owner'' GoNilPointer = None"
  by (simp add: Required_def)

subsection \<open>Date rules\<close>

text \<open>\<open>Before\<close> and \<open>After\<close> are strict and mirror each other.\<close>

lemma Before_irreflexive: "\<not> Before t t"
  by (simp add: Before_def)

lemma After_Before: "After t u \<longleftrightarrow> Before u t"
  by (auto simp: Before_def After_def)

text \<open>
  C8. \<open>DateGreaterThan\<close> reports no violation exactly when the value is not strictly
  before the bound, \<open>DateLessThan\<close> exactly when the value is not strictly after the
  bound; a value equal to the bound passes both.
\<close>

theorem C8_date_bounds:
  "(DateGreaterThan f v mn = None \<longleftrightarrow> \<not> Before v mn)
   \<and> (DateLessThan f v mx = None \<longleftrightarrow> \<not> After v mx)
   \<and> DateGreaterThan f b b = None \<and> DateLessThan f b b = None"
  by (simp add: DateGreaterThan_def DateLessThan_def Before_def After_def)

theorem C8_date_bounds_witness:
  "DateGreaterThan ''FoundAt'' (Time 5 0) (Time 5 1) \<noteq> None
   \<and> DateGreaterThan ''FoundAt'' (Time 5 1) (Time 5 1) = None
   \<and> DateLessThan ''FoundAt'' (Time 6 0) (Time 5 1) \<noteq> None
   \<and> DateLessThan ''FoundAt'' (Time 5 1) (Time 5 1) = None"
  using C8_date_bounds [of "''FoundAt''" "Time 5 0" "Time 5 1" "Time 5 1" "Time 5 1"]
    C8_date_bounds [of "''FoundAt''" "Time 6 0" "Time 5 1" "Time 5 1" "Time 5 1"]
  by (simp add: Before_def After_def)

subsection \<open>Between\<close>

text \<open>
  C9. \<open>Between\<close> reports no violation exactly for the values of the closed interval
  from \<open>min\<close> to \<open>max\<close>, both bounds included.
\<close>

theorem C9_Between_closed_interval:
  "Between f v mn mx = None \<longleftrightarrow> mn \<le> v \<and> v \<le> mx"
  by (auto simp: Between_def)

theorem C9_Between_closed_interval_witness:
  "Between ''age'' 18 18 100 = None \<and> Between ''age'' 100 18 100 = None
   \<and> Between ''age'' 17 18 100 \<noteq> None \<and> Between ''age'' 101 18 100 \<noteq> None"
  using C9_Between_closed_interval [of "''age''" 18 18 100]
    C9_Between_closed_interval [of "''age''" 100 18 100]
    C9_Between_closed_interval [of "''age''" 17 18 100]
    C9_Between_closed_interval [of "''age''" 101 18 100]
  by simp

subsection \<open>The record of a violation\<close>

lemma Required_record:
  "Required f v = Some e \<Longrightarrow>
      Field_ve e = f \<and> MessageParams e Field_k = Some (GoString f)
      \<and> MessageParams e Value_k = Some v \<and> CurrentValue e = v"
  by (auto simp: Required_def key_defs split: if_splits)

lemma Email_record:
  "Email f s = Some e \<Longrightarrow>
      Field_ve e = f \<and> MessageParams e Field_k = Some (GoString f)
      \<and> MessageParams e Value_k = Some (GoString s) \<and> CurrentValue e = GoString s"
  by (auto simp: Email_def key_defs split: if_splits)

lemma MinLength_record:
  "MinLength f s n = Some e \<Longrightarrow>
      Field_ve e = f \<and> MessageParams e Field_k = Some (GoString f)
      \<and> MessageParams e Value_k = Some (GoString s) \<and> CurrentValue e = GoString s"
  by (auto simp: MinLength_def key_defs split: if_splits)

lemma MaxLength_record:
  "MaxLength f s n = Some e \<Longrightarrow>
      Field_ve e = f \<and> MessageParams e Field_k = Some (GoString f)
      \<and> MessageParams e Value_k = Some (GoString s) \<and> CurrentValue e = GoString s"
  by (auto simp: MaxLength_def key_defs split: if_splits)

lemma Between_record:
  "Between f i mn mx = Some e \<Longrightarrow>
      Field_ve e = f \<and> MessageParams e Field_k = Some (GoString f)
      \<and> MessageParams e Value_k = Some (GoInt i) \<and> CurrentValue e = GoInt i"
  by (auto simp: Between_def key_defs split: if_splits)

lemma DateGreaterThan_record:
  "DateGreaterThan f t lo = Some e \<Longrightarrow>
      Field_ve e = f \<and> MessageParams e Field_k = Some (GoString f)
      \<and> MessageParams e Value_k = Some (GoTime t) \<and> CurrentValue e = GoTime t"
  by (auto simp: DateGreaterThan_def key_defs split: if_splits)

lemma DateLessThan_record:
  "DateLessThan f t hi = Some e \<Longrightarrow>
      Field_ve e = f \<and> MessageParams e Field_k = Some (GoString f)
      \<and> MessageParams e Value_k = Some (GoTime t) \<and> CurrentValue e = GoTime t"
  by (auto simp: DateLessThan_def key_defs split: if_splits)

text \<open>
  C10. Whenever one of the seven rules reports a violation, the record's field is the
  field argument, its message parameters bind \<open>Field\<close> to the field argument and
  \<open>Value\<close> to the checked value itself, and its current value is the checked value
  itself.
\<close>

theorem C10_violation_record:
  "(Required f v = Some e1 \<longrightarrow>
      Field_ve e1 = f \<and> MessageParams e1 Field_k = Some (GoString f)
      \<and> MessageParams e1 Value_k = Some v \<and> CurrentValue e1 = v)
   \<and> (Email f s = Some e2 \<longrightarrow>
      Field_ve e2 = f \<and> MessageParams e2 Field_k = Some (GoString f)
      \<and> MessageParams e2 Value_k = Some (GoString s) \<and> CurrentValue e2 = GoString s)
   \<and> (MinLength f s3 n3 = Some e3 \<longrightarrow>
      Field_ve e3 = f \<and> MessageParams e3 Field_k = Some (GoString f)
      \<and> MessageParams e3 Value_k = Some (GoString s3) \<and> CurrentValue e3 = GoString s3)
   \<and> (MaxLength f s4 n4 = Some e4 \<longrightarrow>
      Field_ve e4 = f \<and> MessageParams e4 Field_k = Some (GoString f)
      \<and> MessageParams e4 Value_k = Some (GoString s4) \<and> CurrentValue e4 = GoString s4)
   \<and> (Between f i mn mx = Some e5 \<longrightarrow>
      Field_ve e5 = f \<and> MessageParams e5 Field_k = Some (GoString f)
      \<and> MessageParams e5 Value_k = Some (GoInt i) \<and> CurrentValue e5 = GoInt i)
   \<and> (DateGreaterThan f t lo = Some e6 \<longrightarrow>
      Field_ve e6 = f \<and> MessageParams e6 Field_k = Some (GoString f)
      \<and> MessageParams e6 Value_k = Some (GoTime t) \<and> CurrentValue e6 = GoTime t)
   \<and> (DateLessThan f t7 hi = Some e7 \<longrightarrow>
      Field_ve e7 = f \<and> MessageParams e7 Field_k = Some (GoString f)
      \<and> MessageParams e7 Value_k = Some (GoTime t7) \<and> CurrentValue e7 = GoTime t7)"
  using Required_record [of f v e1] Email_record [of f s e2] MinLength_record [of f s3 n3 e3]
    MaxLength_record [of f s4 n4 e4] Between_record [of f i mn mx e5]
    DateGreaterThan_record [of f t lo e6] DateLessThan_record [of f t7 hi e7]
  by blast

theorem C10_violation_record_witness:
  "Required ''name'' (GoString []) \<noteq> None
   \<and> Field_ve (the (Required ''name'' (GoString []))) = ''name''
   \<and> MessageParams (the (Required ''name'' (GoString []))) Value_k = Some (GoString [])
   \<and> CurrentValue (the (Required ''name'' (GoString []))) = GoString []
   \<and> Email ''name'' ''invalid'' \<noteq> None
   \<and> CurrentValue (the (Email ''name'' ''invalid'')) = GoString ''invalid''
   \<and> MinLength ''name'' ''a'' 3 \<noteq> None
   \<and> CurrentValue (the (MinLength ''name'' ''a'' 3)) = GoString ''a''
   \<and> MaxLength ''name'' ''abcd'' 3 \<noteq> None
   \<and> CurrentValue (the (MaxLength ''name'' ''abcd'' 3)) = GoString ''abcd''
   \<and> Between ''name'' 17 18 100 \<noteq> None
   \<and> MessageParams (the (Between ''name'' 17 18 100)) Value_k = Some (GoInt 17)
   \<and> DateGreaterThan ''name'' (Time 5 0) (Time 5 1) \<noteq> None
   \<and> MessageParams (the (DateGreaterThan ''name'' (Time 5 0) (Time 5 1))) Field_k
        = Some (GoString ''name'')
   \<and> DateLessThan ''name'' (Time 6 0) (Time 5 1) \<noteq> None
   \<and> CurrentValue (the (DateLessThan ''name'' (Time 6 0) (Time 5 1))) = GoTime (Time 6 0)"
proof -
  have h1: "Required ''name'' (GoString []) \<noteq> None" by (simp add: Required_def)
  have h2: "Email ''name'' ''invalid'' \<noteq> None" by (simp add: Email_def)
  have h3: "MinLength ''name'' ''a'' 3 \<noteq> None" by (simp add: MinLength_def)
  have h4: "MaxLength ''name'' ''abcd'' 3 \<noteq> None" by (simp add: MaxLength_def)
  have h5: "Between ''name'' 17 18 100 \<noteq> None" by (simp add: Between_def)
  have h6: "DateGreaterThan ''name'' (Time 5 0) (Time 5 1) \<noteq> None"
    by (simp add: DateGreaterThan_def Before_def)
  have h7: "DateLessThan ''name'' (Time 6 0) (Time 5 1) \<noteq> None"
    by (simp add: DateLessThan_def After_def)
  show ?thesis
    using h1 h2 h3 h4 h5 h6 h7
      C10_violation_record [of "''name''" "GoString []" "the (Required ''name'' (GoString []))"
        "''invalid''" "the (Email ''name'' ''invalid'')"
        "''a''" 3 "the (MinLength ''name'' ''a'' 3)"
        "''abcd''" 3 "the (MaxLength ''name'' ''abcd'' 3)"
        17 18 100 "the (Between ''name'' 17 18 100)"
        "Time 5 0" "Time 5 1" "the (DateGreaterThan ''name'' (Time 5 0) (Time 5 1))"
        "Time 6 0" "Time 5 1" "the (DateLessThan ''name'' (Time 6 0) (Time 5 1))"]
    by (simp only: option.collapse simp_thms)
qed

section \<open>Properties of the Validator\<close>

lemma violations_filter: "map Some (violations ps) = filter is_violation ps"
  by (induction ps rule: violations.induct) simp_all

lemma violations_length: "length (violations ps) = length (filter is_violation ps)"
  using violations_filter [of ps] by (metis length_map)

lemma Validate_loop_eq: "Validate_loop v ps = v\<lparr> errors := errors v @ violations ps \<rparr>"
proof (induction ps arbitrary: v)
  case Nil
  then show ?case by simp
next
  case (Cons p ps)
  then show ?case by (cases p) simp_all
qed

lemma Validate_eq:
  "Validate V v val =
     (if V val = [] then (None, v)
      else if errors v @ violations (V val) = [] then (None, v)
      else (Some (errors v @ violations (V val)), v\<lparr> errors := errors v @ violations (V val) \<rparr>))"
  by (simp add: Validate_def Let_def Validate_loop_eq)

lemma Validate_errors: "errors (snd (Validate V v val)) = errors v @ violations (V val)"
  by (simp add: Validate_eq)

lemma Validate_seq_errors:
  "errors (snd (Validate_seq V v vals)) = errors v @ concat (map (\<lambda>x. violations (V x)) vals)"
proof (induction vals arbitrary: v)
  case Nil
  then show ?case by simp
next
  case (Cons a vals)
  have "Validate_seq V v (a # vals) =
      (fst (Validate V v a) # fst (Validate_seq V (snd (Validate V v a)) vals),
       snd (Validate_seq V (snd (Validate V v a)) vals))"
    by (simp add: case_prod_beta)
  then show ?case using Cons.IH [of "snd (Validate V v a)"] Validate_errors [of V v a]
    by simp
qed

text \<open>
  C2. The accumulator is never reset. A call that collects at least one error leaves the
  errors in the Validator; after any further calls on the same Validator, whose errors are
  appended in turn, a call with a non-empty rule sequence that contributes no error
  returns all the accumulated errors and leaves the Validator as it was.
\<close>

theorem C2_accumulator_not_reset:
  assumes "violations (V val1) \<noteq> []"
    and "V val2 \<noteq> []" and "violations (V val2) = []"
    and "v1 = snd (Validate V v val1)" and "v2 = snd (Validate_seq V v1 vals)"
  shows "errors v1 = errors v @ violations (V val1)
     \<and> errors v2 = errors v1 @ concat (map (\<lambda>x. violations (V x)) vals)
     \<and> Validate V v2 val2 = (Some (errors v2), v2)"
proof -
  have a: "errors v1 = errors v @ violations (V val1)"
    using assms(4) by (simp add: Validate_errors)
  have b: "errors v2 = errors v1 @ concat (map (\<lambda>x. violations (V x)) vals)"
    using assms(5) by (simp add: Validate_seq_errors)
  have "errors v2 \<noteq> []" using a b assms(1) by simp
  then have c: "Validate V v2 val2 = (Some (errors v2), v2)"
    using assms(2,3) by (simp add: Validate_eq)
  show ?thesis using a b c by simp
qed

theorem C2_accumulator_not_reset_witness:
  "violations (id [Required ''name'' (GoString []), Email ''email'' ''invalid'']) \<noteq> []
   \<and> id [MinLength ''Name'' ''John'' 2, Between ''Age'' 25 18 100] \<noteq> []
   \<and> violations (id [MinLength ''Name'' ''John'' 2, Between ''Age'' 25 18 100]) = []
   \<and> map_option (map MessageKey)
        (fst (Validate id
               (snd (Validate_seq id
                      (snd (Validate id New
                             [Required ''name'' (GoString []), Email ''email'' ''invalid'']))
                      [[None], []]))
               [MinLength ''Name'' ''John'' 2, Between ''Age'' 25 18 100]))
       = Some [''validation.required'', ''validation.email'']"
proof -
  have h1: "violations (id [Required ''name'' (GoString []), Email ''email'' ''invalid'']) \<noteq> []"
    by (simp add: Required_def Email_def MsgRequired_def)
  have h2: "id [MinLength ''Name'' ''John'' 2, Between ''Age'' 25 18 100] \<noteq> []"
    by simp
  have h3: "violations (id [MinLength ''Name'' ''John'' 2, Between ''Age'' 25 18 100]) = []"
    by (simp add: MinLength_def Between_def)
  have v: "map MessageKey (violations (id [Required ''name'' (GoString []), Email ''email'' ''invalid'']))
      = [''validation.required'', ''validation.email'']"
    by (simp add: Required_def Email_def MsgRequired_def MsgInvalidEmail_def)
  show ?thesis
    using h1 h2 h3 v
      C2_accumulator_not_reset [where V = id and v = New and vals = "[[None], []]"
        and ?val1.0 = "[Required ''name'' (GoString []), Email ''email'' ''invalid'']"
        and ?val2.0 = "[MinLength ''Name'' ''John'' 2, Between ''Age'' 25 18 100]",
        OF h1 h2 h3 refl refl]
    by (simp add: New_def)
qed

text \<open>
  C5, as stated, for every Validator: an entity with \<open>k\<close> violations among its rule
  results gets back exactly those \<open>k\<close>, and no error when \<open>k = 0\<close>. It fails on a
  Validator that has already collected an error: an entity whose only rule passes gets
  the earlier error back.
\<close>

theorem C5_stale_errors_counterexample:
  "length (filter is_violation [Between ''Age'' 25 18 100]) = 0
   \<and> fst (Validate id (snd (Validate id New [Required ''name'' (GoString [])]))
            [Between ''Age'' 25 18 100]) \<noteq> None
   \<and> map_option (map MessageKey)
        (fst (Validate id (snd (Validate id New [Required ''name'' (GoString [])]))
               [Between ''Age'' 25 18 100]))
       = Some [''validation.required'']"
  by (simp add: Validate_def New_def Required_def Between_def MsgRequired_def)

text \<open>
  C5, amended: on a Validator whose accumulator is empty, \<open>Validate\<close> returns no error
  when the entity has no violation, and otherwise exactly the \<open>k\<close> violations, in their
  original order.
\<close>

theorem C5_fresh_validator:
  assumes "errors v = []" and "k = length (filter is_violation (V val))"
  shows "case fst (Validate V v val) of
           None \<Rightarrow> k = 0
         | Some errs \<Rightarrow> 0 < k \<and> length errs = k \<and> map Some errs = filter is_violation (V val)"
proof (cases "violations (V val) = []")
  case True
  then have "fst (Validate V v val) = None" using assms(1) by (simp add: Validate_eq)
  moreover have "k = 0" using True assms(2) violations_length [of "V val"] by simp
  ultimately show ?thesis by simp
next
  case False
  then have "V val \<noteq> []" by auto
  then have "fst (Validate V v val) = Some (violations (V val))"
    using False assms(1) by (simp add: Validate_eq)
  moreover have "0 < k" using False assms(2) violations_length [of "V val"]
    by (metis length_greater_0_conv)
  ultimately show ?thesis
    using assms(2) violations_length [of "V val"] violations_filter [of "V val"] by simp
qed

theorem C5_fresh_validator_witness:
  "errors New = []
   \<and> (2::nat) = length (filter is_violation (id [Required ''name'' (GoString []), None,
                                                  Email ''email'' ''invalid'']))
   \<and> map_option length (fst (Validate id New [Required ''name'' (GoString []), None,
                                                  Email ''email'' ''invalid''])) = Some 2
   \<and> (0::nat) = length (filter is_violation (id [Between ''Age'' 25 18 100]))
   \<and> fst (Validate id New [Between ''Age'' 25 18 100]) = None"
proof -
  have h1: "errors New = []" by (simp add: New_def)
  have h2: "(2::nat) = length (filter is_violation (id [Required ''name'' (GoString []), None,
                                                  Email ''email'' ''invalid'']))"
    by (simp add: Required_def Email_def MsgRequired_def MsgInvalidEmail_def)
  have h3: "(0::nat) = length (filter is_violation (id [Between ''Age'' 25 18 100]))"
    by (simp add: Between_def)
  show ?thesis
    using h1 h2 h3 C5_fresh_validator [where V = id and v = New and k = 2
        and val = "[Required ''name'' (GoString []), None, Email ''email'' ''invalid'']", OF h1 h2]
      C5_fresh_validator [where V = id and v = New and k = 0
        and val = "[Between ''Age'' 25 18 100]", OF h1 h3]
    by (auto split: option.splits)
qed

section \<open>Properties of the Translator\<close>

subsection \<open>Construction\<close>

lemma parse_messages_isl:
  "isl (parse_messages parse tm msgs) \<longleftrightarrow> (\<exists>(k, m) \<in> set msgs. isl (parse k m))"
proof (induction msgs arbitrary: tm)
  case Nil
  then show ?case by simp
next
  case (Cons km msgs)
  obtain k m where km: "km = (k, m)" by (cases km)
  show ?case
  proof (cases "parse k m")
    case (Inl e)
    then show ?thesis using km by simp
  next
    case (Inr t)
    then show ?thesis using km by (simp add: Cons.IH)
  qed
qed

lemma parse_messages_dom:
  "parse_messages parse tm msgs = Inr tm' \<Longrightarrow> dom tm' = dom tm \<union> fst ` set msgs"
proof (induction msgs arbitrary: tm)
  case Nil
  then show ?case by simp
next
  case (Cons km msgs)
  obtain k m where km: "km = (k, m)" by (cases km)
  show ?case
  proof (cases "parse k m")
    case (Inl e)
    then show ?thesis using km Cons.prems by simp
  next
    case (Inr t)
    then have "parse_messages parse (tm(k \<mapsto> t)) msgs = Inr tm'"
      using km Cons.prems by simp
    then have "dom tm' = dom (tm(k \<mapsto> t)) \<union> fst ` set msgs" by (rule Cons.IH)
    then show ?thesis using km by auto
  qed
qed

lemma parse_messages_other:
  "parse_messages parse tm msgs = Inr tm' \<Longrightarrow> k \<notin> fst ` set msgs \<Longrightarrow> tm' k = tm k"
proof (induction msgs arbitrary: tm)
  case Nil
  then show ?case by simp
next
  case (Cons km msgs)
  obtain k' m where km: "km = (k', m)" by (cases km)
  have ne: "k' \<noteq> k" using Cons.prems(2) km by auto
  show ?case
  proof (cases "parse k' m")
    case (Inl e)
    then show ?thesis using km Cons.prems by simp
  next
    case (Inr t)
    then have "parse_messages parse (tm(k' \<mapsto> t)) msgs = Inr tm'"
      using km Cons.prems by simp
    moreover have "k \<notin> fst ` set msgs" using Cons.prems(2) by simp
    ultimately have "tm' k = (tm(k' \<mapsto> t)) k" by (rule Cons.IH)
    then show ?thesis using ne by simp
  qed
qed

lemma parse_messages_lookup:
  "parse_messages parse tm msgs = Inr tm' \<Longrightarrow> distinct (map fst msgs) \<Longrightarrow> (k, m) \<in> set msgs
    \<Longrightarrow> parse k m = Inr tp \<Longrightarrow> tm' k = Some tp"
proof (induction msgs arbitrary: tm)
  case Nil
  then show ?case by simp
next
  case (Cons km msgs)
  obtain k' m' where km: "km = (k', m')" by (cases km)
  show ?case
  proof (cases "parse k' m'")
    case (Inl e)
    then show ?thesis using km Cons.prems by simp
  next
    case (Inr t)
    then have rest: "parse_messages parse (tm(k' \<mapsto> t)) msgs = Inr tm'"
      using km Cons.prems by simp
    have d: "distinct (map fst msgs)" and nk: "k' \<notin> fst ` set msgs"
      using Cons.prems(2) km by simp_all
    show ?thesis
    proof (cases "(k, m) = (k', m')")
      case True
      then have "tm' k = (tm(k' \<mapsto> t)) k"
        using parse_messages_other [OF rest] nk by simp
      then show ?thesis using True Inr Cons.prems(4) by simp
    next
      case False
      then have "(k, m) \<in> set msgs" using Cons.prems(3) km by auto
      then show ?thesis using Cons.IH [OF rest d _ Cons.prems(4)] by simp
    qed
  qed
qed

lemma NewTranslatorWithMessages_messages:
  "NewTranslatorWithMessages parse msgs = Inr t \<Longrightarrow> messages t = msgs"
  by (cases "parse_messages parse Map.empty msgs") (auto simp: NewTranslatorWithMessages_def)

text \<open>
  C7. Construction fails (the panic of \<open>template.Must\<close>) exactly when some template of
  the mapping does not parse: no Translator is returned that would meet the malformed
  template later. When every template parses, construction returns a Translator that
  holds the mapping and one parsed template for each of its keys. This holds for every
  parser.
\<close>

theorem C7_construction_fails_fast:
  "(isl (NewTranslatorWithMessages parse msgs) \<longleftrightarrow> (\<exists>(k, m) \<in> set msgs. isl (parse k m)))
   \<and> ((\<forall>(k, m) \<in> set msgs. \<not> isl (parse k m)) \<longrightarrow>
        (\<exists>tm. NewTranslatorWithMessages parse msgs = Inr \<lparr> messages = msgs, tmpl = tm \<rparr>
              \<and> dom tm = fst ` set msgs))"
proof -
  have a: "isl (NewTranslatorWithMessages parse msgs) \<longleftrightarrow> (\<exists>(k, m) \<in> set msgs. isl (parse k m))"
    using parse_messages_isl [of parse Map.empty msgs]
    by (cases "parse_messages parse Map.empty msgs") (simp_all add: NewTranslatorWithMessages_def)
  have b: "\<exists>tm. NewTranslatorWithMessages parse msgs = Inr \<lparr> messages = msgs, tmpl = tm \<rparr>
              \<and> dom tm = fst ` set msgs"
    if "\<forall>(k, m) \<in> set msgs. \<not> isl (parse k m)"
  proof -
    have "\<not> isl (parse_messages parse Map.empty msgs)"
      using that parse_messages_isl [of parse Map.empty msgs] by auto
    then obtain tm where tm: "parse_messages parse Map.empty msgs = Inr tm"
      by (cases "parse_messages parse Map.empty msgs") simp_all
    then have "dom tm = fst ` set msgs" using parse_messages_dom [OF tm] by simp
    then show ?thesis using tm by (simp add: NewTranslatorWithMessages_def)
  qed
  show ?thesis using a b by blast
qed

theorem C7_construction_fails_fast_witness:
  "(\<exists>(k, m) \<in> set [(MsgRequired, ''The {{Field}} field is required'')]. isl (Parse k m))
   \<and> isl (NewTranslatorWithMessages Parse [(MsgRequired, ''The {{Field}} field is required'')])
   \<and> list_all (\<lambda>(k, m). \<not> isl (Parse k m))
        [(MsgRequired, ''The {{.Field}} field is required''),
         (MsgMinLength, ''The {{.Field}} must be at least {{.Min}} characters'')]
   \<and> \<not> isl (NewTranslatorWithMessages Parse
        [(MsgRequired, ''The {{.Field}} field is required''),
         (MsgMinLength, ''The {{.Field}} must be at least {{.Min}} characters'')])"
proof -
  have bad: "isl (Parse MsgRequired ''The {{Field}} field is required'')"
    by code_simp
  have good: "list_all (\<lambda>(k, m). \<not> isl (Parse k m))
        [(MsgRequired, ''The {{.Field}} field is required''),
         (MsgMinLength, ''The {{.Field}} must be at least {{.Min}} characters'')]"
    by code_simp
  show ?thesis
    using bad good
      C7_construction_fails_fast [of Parse "[(MsgRequired, ''The {{Field}} field is required'')]"]
      C7_construction_fails_fast [of Parse
        "[(MsgRequired, ''The {{.Field}} field is required''),
          (MsgMinLength, ''The {{.Field}} must be at least {{.Min}} characters'')]"]
    by (simp add: list_all_iff)
qed

subsection \<open>Translation\<close>

lemma Translate_unknown_key:
  "map_of (messages t) (MessageKey err) = None \<Longrightarrow> Translate execute t err = MessageKey err"
  by (simp add: Translate_def)

lemma Translate_exec_error:
  "map_of (messages t) (MessageKey err) = Some m \<Longrightarrow> tmpl t (MessageKey err) = Some tp
    \<Longrightarrow> execute tp (MessageParams err) = Inl (ExecError n txt)
    \<Longrightarrow> Translate execute t err = txt"
  by (simp add: Translate_def)

lemma Translate_rendered:
  "map_of (messages t) (MessageKey err) = Some m \<Longrightarrow> tmpl t (MessageKey err) = Some tp
    \<Longrightarrow> execute tp (MessageParams err) = Inr out
    \<Longrightarrow> Translate execute t err = out"
  by (simp add: Translate_def)

lemma walk_substitute:
  "\<forall>f \<in> set (placeholders ns). \<exists>v s. dot f = Some v \<and> printValue TS v = Some s
    \<Longrightarrow> walk TS name dot buf ns = Inr (buf @ substitute TS dot ns)"
proof (induction ns arbitrary: buf)
  case Nil
  then show ?case by simp
next
  case (Cons n ns)
  show ?case
  proof (cases n)
    case (TextNode s)
    then show ?thesis using Cons by simp
  next
    case (FieldNode f)
    then obtain v s where "dot f = Some v" "printValue TS v = Some s"
      using Cons.prems by auto
    then show ?thesis using FieldNode Cons by simp
  qed
qed

text \<open>
  C6. \<open>Translate\<close> returns the message key unchanged when the registry has no entry
  for it, whatever the executor. For a Translator built from a mapping, a key of the
  mapping and message parameters that supply a printable value for every placeholder of
  the key's template, \<open>Translate\<close> returns the template with every placeholder
  replaced by the printed value of its parameter.
\<close>

theorem C6_translate_laws:
  "(map_of (messages t) (MessageKey err) = None \<longrightarrow> Translate execute t err = MessageKey err)
   \<and> (distinct (map fst msgs) \<and> NewTranslatorWithMessages Parse msgs = Inr tr
        \<and> (MessageKey err, msg) \<in> set msgs \<and> Parse (MessageKey err) msg = Inr tp
        \<and> (\<forall>f \<in> set (placeholders (Root tp)).
              \<exists>v s. MessageParams err f = Some v \<and> printValue TS v = Some s)
      \<longrightarrow> Translate (Execute TS) tr err = substitute TS (MessageParams err) (Root tp))"
proof -
  have b: "Translate (Execute TS) tr err = substitute TS (MessageParams err) (Root tp)"
    if d: "distinct (map fst msgs)" and n: "NewTranslatorWithMessages Parse msgs = Inr tr"
      and k: "(MessageKey err, msg) \<in> set msgs" and p: "Parse (MessageKey err) msg = Inr tp"
      and s: "\<forall>f \<in> set (placeholders (Root tp)).
              \<exists>v s. MessageParams err f = Some v \<and> printValue TS v = Some s"
  proof -
    obtain tm where tm: "parse_messages Parse Map.empty msgs = Inr tm"
      and tr: "tr = \<lparr> messages = msgs, tmpl = tm \<rparr>"
      using n by (cases "parse_messages Parse Map.empty msgs")
        (auto simp: NewTranslatorWithMessages_def)
    have l: "tmpl tr (MessageKey err) = Some tp"
      using parse_messages_lookup [OF tm d k p] tr by simp
    have m: "map_of (messages tr) (MessageKey err) = Some msg"
      using d k tr by simp
    have "Execute TS tp (MessageParams err) = Inr (substitute TS (MessageParams err) (Root tp))"
      using walk_substitute [OF s, of "Name tp" "[]"] by (simp add: Execute_def)
    then show ?thesis using Translate_rendered [OF m l] by simp
  qed
  show ?thesis using b Translate_unknown_key [of t err execute] by blast
qed

theorem C6_translate_laws_witness:
  "distinct (map fst [(MsgRequired, ''The {{.Field}} field is required''),
         (MsgMinLength, ''The {{.Field}} must be at least {{.Min}} characters'')])
   \<and> \<not> isl (NewTranslatorWithMessages Parse
        [(MsgRequired, ''The {{.Field}} field is required''),
         (MsgMinLength, ''The {{.Field}} must be at least {{.Min}} characters'')])
   \<and> Translate (Execute (\<lambda>t. []))
        (projr (NewTranslatorWithMessages Parse
          [(MsgRequired, ''The {{.Field}} field is required''),
           (MsgMinLength, ''The {{.Field}} must be at least {{.Min}} characters'')]))
        \<lparr> Field_ve = ''test'', MessageKey = ''unknown.key'', MessageParams = Map.empty,
          CurrentValue = GoNil \<rparr>
       = ''unknown.key''
   \<and> Translate (Execute (\<lambda>t. []))
        (projr (NewTranslatorWithMessages Parse
          [(MsgRequired, ''The {{.Field}} field is required''),
           (MsgMinLength, ''The {{.Field}} must be at least {{.Min}} characters'')]))
        \<lparr> Field_ve = ''name'', MessageKey = MsgMinLength,
          MessageParams = [Field_k \<mapsto> GoString ''Name'', Min_k \<mapsto> GoInt 3,
                           Value_k \<mapsto> GoString ''J''],
          CurrentValue = GoString ''J'' \<rparr>
       = ''The Name must be at least 3 characters''"
  (is "?d \<and> ?n \<and> ?u \<and> ?r")
proof -
  let ?msgs = "[(MsgRequired, ''The {{.Field}} field is required''),
         (MsgMinLength, ''The {{.Field}} must be at least {{.Min}} characters'')]"
  let ?tr = "projr (NewTranslatorWithMessages Parse ?msgs)"
  let ?tp = "Template MsgMinLength [TextNode ''The '', FieldNode ''Field'',
     TextNode '' must be at least '', FieldNode ''Min'', TextNode '' characters'']"
  have d: ?d by (simp add: msg_defs)
  have n: ?n by code_simp
  then have tr: "NewTranslatorWithMessages Parse ?msgs = Inr ?tr" by simp
  have m: "messages ?tr = ?msgs" using NewTranslatorWithMessages_messages [OF tr] .
  have u: "map_of (messages ?tr) ''unknown.key'' = None"
    unfolding m by (simp add: msg_defs)
  have p: "Parse MsgMinLength ''The {{.Field}} must be at least {{.Min}} characters'' = Inr ?tp"
    by code_simp
  have three: "itoa 3 = ''3''" by code_simp
  show ?thesis
    using d n u p three
      C6_translate_laws [where t = "?tr" and execute = "Execute (\<lambda>t. [])" and tr = "?tr"
        and msgs = "?msgs" and TS = "\<lambda>t. []" and tp = "?tp"
        and msg = "''The {{.Field}} must be at least {{.Min}} characters''"
        and err = "\<lparr> Field_ve = ''test'', MessageKey = ''unknown.key'',
          MessageParams = Map.empty, CurrentValue = GoNil \<rparr>"]
      C6_translate_laws [where t = "?tr" and execute = "Execute (\<lambda>t. [])" and tr = "?tr"
        and msgs = "?msgs" and TS = "\<lambda>t. []" and tp = "?tp"
        and msg = "''The {{.Field}} must be at least {{.Min}} characters''"
        and err = "\<lparr> Field_ve = ''name'', MessageKey = MsgMinLength,
          MessageParams = [Field_k \<mapsto> GoString ''Name'', Min_k \<mapsto> GoInt 3,
                           Value_k \<mapsto> GoString ''J''],
          CurrentValue = GoString ''J'' \<rparr>"]
    by (simp add: key_defs)
qed

text \<open>
  C1. A rendering failure is specified to make \<open>Translate\<close> return the message key.
  In the source the error of \<open>Execute\<close> shadows the \<open>ValidationError\<close> argument, the
  type assertion to \<open>*ValidationError\<close> fails on it, and \<open>Translate\<close> returns the text
  of the execution error (lemma \<open>Translate_exec_error\<close>). Here a template prints the
  parameter \<open>Value\<close> and the error carries a function value there: the result is the
  error text of the template package, not \<open>validation.required\<close>.
\<close>

theorem C1_render_failure_returns_error_text:
  "\<not> isl (NewTranslatorWithMessages Parse [(MsgRequired, ''{{.Field}} must be set, got {{.Value}}'')])
   \<and> Translate (Execute (\<lambda>t. []))
        (projr (NewTranslatorWithMessages Parse
                 [(MsgRequired, ''{{.Field}} must be set, got {{.Value}}'')]))
        \<lparr> Field_ve = ''OnDone'', MessageKey = MsgRequired,
          MessageParams = [Field_k \<mapsto> GoString ''OnDone'', Value_k \<mapsto> GoFunc],
          CurrentValue = GoFunc \<rparr>
       = ''template: validation.required: executing at <.Value>: cannot print value''
   \<and> ''template: validation.required: executing at <.Value>: cannot print value'' \<noteq> MsgRequired"
  by code_simp

end
